theory Spec2Isabelle
  imports Main "HOL-Library.AList"
begin

section \<open>The IR consumed by the graph fuser\<close>

text \<open>
  Node kinds are interned symbols; a symbol is modelled by its name.  The constants
  below are the symbols that \<^verbatim>\<open>graph_fuser.cpp\<close> mentions.
\<close>

type_synonym NodeKind = string

definition k_and :: NodeKind where "k_and = ''__and__''"
definition k_lshift :: NodeKind where "k_lshift = ''__lshift__''"
definition k_or :: NodeKind where "k_or = ''__or__''"
definition k_rshift :: NodeKind where "k_rshift = ''__rshift__''"
definition k_xor :: NodeKind where "k_xor = ''__xor__''"
definition kabs :: NodeKind where "kabs = ''abs''"
definition kacos :: NodeKind where "kacos = ''acos''"
definition kadd :: NodeKind where "kadd = ''add''"
definition kasin :: NodeKind where "kasin = ''asin''"
definition katan :: NodeKind where "katan = ''atan''"
definition katan2 :: NodeKind where "katan2 = ''atan2''"
definition kceil :: NodeKind where "kceil = ''ceil''"
definition kclamp :: NodeKind where "kclamp = ''clamp''"
definition kcos :: NodeKind where "kcos = ''cos''"
definition kcosh :: NodeKind where "kcosh = ''cosh''"
definition kdiv :: NodeKind where "kdiv = ''div''"
definition keq :: NodeKind where "keq = ''eq''"
definition kexp :: NodeKind where "kexp = ''exp''"
definition kfloor :: NodeKind where "kfloor = ''floor''"
definition kfmod :: NodeKind where "kfmod = ''fmod''"
definition kfrac :: NodeKind where "kfrac = ''frac''"
definition kge :: NodeKind where "kge = ''ge''"
definition kgt :: NodeKind where "kgt = ''gt''"
definition kle :: NodeKind where "kle = ''le''"
definition klerp :: NodeKind where "klerp = ''lerp''"
definition klgamma :: NodeKind where "klgamma = ''lgamma''"
definition klog :: NodeKind where "klog = ''log''"
definition klog1p :: NodeKind where "klog1p = ''log1p''"
definition klt :: NodeKind where "klt = ''lt''"
definition kmax :: NodeKind where "kmax = ''max''"
definition kmin :: NodeKind where "kmin = ''min''"
definition kmul :: NodeKind where "kmul = ''mul''"
definition kne :: NodeKind where "kne = ''ne''"
definition kneg :: NodeKind where "kneg = ''neg''"
definition kones :: NodeKind where "kones = ''ones''"
definition kpow :: NodeKind where "kpow = ''pow''"
definition kreciprocal :: NodeKind where "kreciprocal = ''reciprocal''"
definition kremainder :: NodeKind where "kremainder = ''remainder''"
definition kround :: NodeKind where "kround = ''round''"
definition krsqrt :: NodeKind where "krsqrt = ''rsqrt''"
definition ksigmoid :: NodeKind where "ksigmoid = ''sigmoid''"
definition ksin :: NodeKind where "ksin = ''sin''"
definition ksinh :: NodeKind where "ksinh = ''sinh''"
definition ksqrt :: NodeKind where "ksqrt = ''sqrt''"
definition ksub :: NodeKind where "ksub = ''sub''"
definition ktan :: NodeKind where "ktan = ''tan''"
definition ktanh :: NodeKind where "ktanh = ''tanh''"
definition ktrunc :: NodeKind where "ktrunc = ''trunc''"
definition kzeros :: NodeKind where "kzeros = ''zeros''"
definition k_sigmoid_backward :: NodeKind where "k_sigmoid_backward = ''_sigmoid_backward''"
definition k_tanh_backward :: NodeKind where "k_tanh_backward = ''_tanh_backward''"
definition kFusionGroup :: NodeKind where "kFusionGroup = ''FusionGroup''"
definition kcat :: NodeKind where "kcat = ''cat''"
definition ksplit :: NodeKind where "ksplit = ''split''"
definition kParam :: NodeKind where "kParam = ''Param''"
definition kReturn :: NodeKind where "kReturn = ''Return''"

lemmas kind_defs =
  k_and_def k_lshift_def k_or_def k_rshift_def k_xor_def kabs_def kacos_def
  kadd_def kasin_def katan_def katan2_def kceil_def kclamp_def kcos_def kcosh_def kdiv_def
  keq_def kexp_def kfloor_def kfmod_def kfrac_def kge_def kgt_def kle_def klerp_def
  klgamma_def klog_def klog1p_def klt_def kmax_def kmin_def kmul_def kne_def kneg_def
  kones_def kpow_def kreciprocal_def kremainder_def kround_def krsqrt_def ksigmoid_def
  ksin_def ksinh_def ksqrt_def ksub_def ktan_def ktanh_def ktrunc_def kzeros_def
  k_sigmoid_backward_def k_tanh_backward_def kFusionGroup_def kcat_def ksplit_def
  kParam_def kReturn_def

text \<open>The set \<^verbatim>\<open>simple_mappable\<close>, in the order of the source.\<close>

definition simple_mappable :: "NodeKind list" where
  "simple_mappable =
    [k_and, k_lshift, k_or, k_rshift, k_xor, kabs, kacos, kadd, kasin,
     katan, katan2, kceil, kclamp, kcos, kcosh, kdiv, keq, kexp, kfloor, kfmod, kfrac,
     kge, kgt, kle, klerp, klgamma, klog, klog1p, klt, kmax, kmin, kmul, kne, kneg,
     kones, kpow, kreciprocal, kremainder, kround, krsqrt, ksigmoid, ksin, ksinh, ksqrt,
     ksub, ktan, ktanh, ktrunc, kzeros, k_sigmoid_backward, k_tanh_backward]"


section \<open>Types, values, nodes and graphs\<close>

datatype ScalarType = kByte | kChar | kShort | kInt | kLong | kHalf | kFloat | kDouble

record TensorType =
  scalarType :: ScalarType
  device :: int
  sizes :: "int list"
  strides :: "int list"

datatype Type = TensorT TensorType | HandleT

text \<open>
  Failures of the pass: a failed \<^verbatim>\<open>JIT_ASSERT\<close> (also the ones inside the IR, such
  as \<^verbatim>\<open>type()\<close> on an untyped value and \<^verbatim>\<open>expect\<close> on a type of another kind), a
  dereferenced null pointer (a failed \<^verbatim>\<open>cast\<close> that is used), an \<^verbatim>\<open>at\<close> out of range,
  and a handle to an object that has been destroyed.
\<close>

datatype error = AssertionFailure string | NullDeref | OutOfRange | Dangling

definition bindE :: "error + 'a \<Rightarrow> ('a \<Rightarrow> error + 'b) \<Rightarrow> error + 'b" where
  "bindE m f = (case m of Inl e \<Rightarrow> Inl e | Inr x \<Rightarrow> f x)"

text \<open>A \<^verbatim>\<open>for\<close> loop over a container whose body may fail and updates the state.\<close>

fun foldE :: "('a \<Rightarrow> 's \<Rightarrow> error + 's) \<Rightarrow> 'a list \<Rightarrow> 's \<Rightarrow> error + 's" where
  "foldE f [] s = Inr s"
| "foldE f (x # xs) s = bindE (f x s) (foldE f xs)"

definition JIT_ASSERT :: "string \<Rightarrow> bool \<Rightarrow> error + unit" where
  "JIT_ASSERT what b = (if b then Inr () else Inl (AssertionFailure what))"

definition at :: "'a list \<Rightarrow> nat \<Rightarrow> error + 'a" where
  "at xs i = (if i < length xs then Inr (xs ! i) else Inl OutOfRange)"

text \<open>
  Nodes, values and graphs live in an arena and are named by handles (\<^typ>\<open>nat\<close>).
  A value records its producer and its optional type; its offset is its position in
  the producer's outputs and its uses are the inputs of the nodes that mention it.
\<close>

record Value =
  node :: nat
  typeOption :: "Type option"

record Node =
  kind :: NodeKind
  inputs :: "nat list"
  outputs :: "nat list"
  stage :: nat
  owningGraph :: nat
  subgraph :: "nat option"
  attributes :: "(string \<times> int list) list"

record Graph =
  nodes :: "nat list"
  param_node :: nat
  return_node :: nat
  new_node_stage :: nat

text \<open>
  The state of a \<^verbatim>\<open>GraphFuser\<close>: the arena (three tables from handles to
  objects, as association lists), the handle of the graph being rewritten, and the
  map \<^verbatim>\<open>topological_index\<close>.
\<close>

record GraphFuser =
  node_tab :: "(nat \<times> Node) list"
  value_tab :: "(nat \<times> Value) list"
  graph_tab :: "(nat \<times> Graph) list"
  next_unique :: nat
  graph :: nat
  topological_index :: "(nat \<times> nat) list"

definition getNode :: "GraphFuser \<Rightarrow> nat \<Rightarrow> error + Node" where
  "getNode s n = (case map_of (node_tab s) n of None \<Rightarrow> Inl Dangling | Some nd \<Rightarrow> Inr nd)"

definition getValue :: "GraphFuser \<Rightarrow> nat \<Rightarrow> error + Value" where
  "getValue s v = (case map_of (value_tab s) v of None \<Rightarrow> Inl Dangling | Some x \<Rightarrow> Inr x)"

definition getGraph :: "GraphFuser \<Rightarrow> nat \<Rightarrow> error + Graph" where
  "getGraph s g = (case map_of (graph_tab s) g of None \<Rightarrow> Inl Dangling | Some x \<Rightarrow> Inr x)"

definition setNode :: "nat \<Rightarrow> Node \<Rightarrow> GraphFuser \<Rightarrow> GraphFuser" where
  "setNode n nd s = s\<lparr>node_tab := AList.update n nd (node_tab s)\<rparr>"

definition setGraph :: "nat \<Rightarrow> Graph \<Rightarrow> GraphFuser \<Rightarrow> GraphFuser" where
  "setGraph g gr s = s\<lparr>graph_tab := AList.update g gr (graph_tab s)\<rparr>"

subsection \<open>TensorType\<close>

text \<open>
  Modelled from the spec: the IR's \<^verbatim>\<open>TensorType\<close> is not part of the file; the spec
  gives it \<^verbatim>\<open>device\<close>, \<^verbatim>\<open>scalarType\<close>, \<^verbatim>\<open>sizes\<close>, \<^verbatim>\<open>strides\<close>, \<^verbatim>\<open>withSizesStrides\<close> and a
  \<^verbatim>\<open>contiguous()\<close> derivation (the same sizes with row-major strides).
\<close>

definition withSizesStrides :: "TensorType \<Rightarrow> int list \<Rightarrow> int list \<Rightarrow> TensorType" where
  "withSizesStrides t sz st = t\<lparr>sizes := sz, strides := st\<rparr>"

fun contiguousStridesOf :: "int list \<Rightarrow> int list" where
  "contiguousStridesOf [] = []"
| "contiguousStridesOf [s] = [1]"
| "contiguousStridesOf (s # s' # ss) =
     (case contiguousStridesOf (s' # ss) of
        [] \<Rightarrow> []
      | r # rs \<Rightarrow> (r * s') # r # rs)"

definition contiguous :: "TensorType \<Rightarrow> TensorType" where
  "contiguous t = t\<lparr>strides := contiguousStridesOf (sizes t)\<rparr>"

definition type :: "Value \<Rightarrow> error + Type" where
  "type v = (case typeOption v of None \<Rightarrow> Inl (AssertionFailure ''type_ != nullptr'') | Some t \<Rightarrow> Inr t)"

definition hasType :: "Value \<Rightarrow> bool" where
  "hasType v = (typeOption v \<noteq> None)"

definition cast_TensorType :: "Type \<Rightarrow> TensorType option" where
  "cast_TensorType t = (case t of TensorT tt \<Rightarrow> Some tt | HandleT \<Rightarrow> None)"

definition expect_TensorType :: "Type \<Rightarrow> error + TensorType" where
  "expect_TensorType t = (case t of TensorT tt \<Rightarrow> Inr tt | HandleT \<Rightarrow> Inl (AssertionFailure ''expect<TensorType>''))"

definition deref :: "'a option \<Rightarrow> error + 'a" where
  "deref p = (case p of None \<Rightarrow> Inl NullDeref | Some x \<Rightarrow> Inr x)"

subsection \<open>Node and Value capabilities\<close>

text \<open>
  Modelled from the spec: the IR container (section 6 of the spec) is not part of the
  file.  \<^verbatim>\<open>output()\<close> and \<^verbatim>\<open>input()\<close> are the sole output and the sole input of a
  node and fail on a node that has not exactly one.
\<close>

definition node_output :: "Node \<Rightarrow> error + nat" where
  "node_output nd = (case outputs nd of [v] \<Rightarrow> Inr v | _ \<Rightarrow> Inl (AssertionFailure ''outputs_.size() == 1''))"

definition node_input :: "Node \<Rightarrow> error + nat" where
  "node_input nd = (case inputs nd of [v] \<Rightarrow> Inr v | _ \<Rightarrow> Inl (AssertionFailure ''inputs_.size() == 1''))"

text \<open>
  Modelled from the spec: the uses of a value are the pairs (user, input index) of
  the nodes of the arena that have the value as an input.
\<close>

definition uses_in :: "nat \<Rightarrow> Node \<Rightarrow> nat \<Rightarrow> (nat \<times> nat) list" where
  "uses_in u nd v = map (\<lambda>i. (u, i)) (filter (\<lambda>i. inputs nd ! i = v) [0..<length (inputs nd)])"

definition uses :: "GraphFuser \<Rightarrow> nat \<Rightarrow> (nat \<times> nat) list" where
  "uses s v =
     concat (map (\<lambda>(u, nd). uses_in u nd v) (node_tab s))"

definition offset :: "GraphFuser \<Rightarrow> nat \<Rightarrow> error + nat" where
  "offset s v =
     bindE (getValue s v) (\<lambda>x.
     bindE (getNode s (node x)) (\<lambda>nd.
       if v \<in> set (outputs nd) then Inr (length (takeWhile (\<lambda>w. w \<noteq> v) (outputs nd)))
       else Inl Dangling))"

text \<open>Modelled from the spec: \<^verbatim>\<open>Value::stage\<close> is the stage of the producing node.\<close>

definition value_stage :: "GraphFuser \<Rightarrow> nat \<Rightarrow> error + nat" where
  "value_stage s v =
     bindE (getValue s v) (\<lambda>x. bindE (getNode s (node x)) (\<lambda>nd. Inr (stage nd)))"

text \<open>
  Modelled from the spec: \<^verbatim>\<open>create(kind, n_outputs)\<close> allocates a node of the graph
  \<open>g\<close> with \<open>n\<close> fresh untyped outputs, in the graph's current stage, not yet in the
  node list.
\<close>

definition addOutput :: "nat \<Rightarrow> GraphFuser \<Rightarrow> error + (nat \<times> GraphFuser)" where
  "addOutput n s =
     bindE (getNode s n) (\<lambda>nd.
       let v = next_unique s in
       Inr (v, s\<lparr>node_tab := AList.update n (nd\<lparr>outputs := outputs nd @ [v]\<rparr>) (node_tab s),
                 value_tab := AList.update v \<lparr>node = n, typeOption = None\<rparr> (value_tab s),
                 next_unique := Suc v\<rparr>))"

fun addOutputs :: "nat \<Rightarrow> nat \<Rightarrow> GraphFuser \<Rightarrow> error + GraphFuser" where
  "addOutputs n 0 s = Inr s"
| "addOutputs n (Suc k) s = bindE (addOutput n s) (\<lambda>(v, s'). addOutputs n k s')"

definition create :: "nat \<Rightarrow> NodeKind \<Rightarrow> nat \<Rightarrow> GraphFuser \<Rightarrow> error + (nat \<times> GraphFuser)" where
  "create g k n_outputs s =
     bindE (getGraph s g) (\<lambda>gr.
       let n = next_unique s;
           nd = \<lparr>kind = k, inputs = [], outputs = [], stage = new_node_stage gr,
                 owningGraph = g, subgraph = None, attributes = []\<rparr>
       in bindE (addOutputs n n_outputs (s\<lparr>node_tab := AList.update n nd (node_tab s),
                                              next_unique := Suc n\<rparr>))
            (\<lambda>s'. Inr (n, s')))"

definition addInput :: "nat \<Rightarrow> nat \<Rightarrow> GraphFuser \<Rightarrow> error + GraphFuser" where
  "addInput n v s =
     bindE (getNode s n) (\<lambda>nd. Inr (setNode n (nd\<lparr>inputs := inputs nd @ [v]\<rparr>) s))"

definition removeInput :: "nat \<Rightarrow> nat \<Rightarrow> GraphFuser \<Rightarrow> error + GraphFuser" where
  "removeInput n i s =
     bindE (getNode s n) (\<lambda>nd.
       if i < length (inputs nd)
       then Inr (setNode n (nd\<lparr>inputs := take i (inputs nd) @ drop (Suc i) (inputs nd)\<rparr>) s)
       else Inl OutOfRange)"

definition copyAttributes :: "nat \<Rightarrow> nat \<Rightarrow> GraphFuser \<Rightarrow> error + GraphFuser" where
  "copyAttributes n src s =
     bindE (getNode s n) (\<lambda>nd.
     bindE (getNode s src) (\<lambda>sd.
       Inr (setNode n (nd\<lparr>subgraph := subgraph sd, attributes := attributes sd\<rparr>) s)))"

definition setType :: "nat \<Rightarrow> Type option \<Rightarrow> GraphFuser \<Rightarrow> error + GraphFuser" where
  "setType v t s =
     bindE (getValue s v) (\<lambda>x.
       Inr (s\<lparr>value_tab := AList.update v (x\<lparr>typeOption := t\<rparr>) (value_tab s)\<rparr>))"

definition copyMetadata :: "nat \<Rightarrow> nat \<Rightarrow> GraphFuser \<Rightarrow> error + GraphFuser" where
  "copyMetadata v src s = bindE (getValue s src) (\<lambda>x. setType v (typeOption x) s)"

definition replace_in :: "nat \<Rightarrow> nat \<Rightarrow> Node \<Rightarrow> Node" where
  "replace_in old new nd = nd\<lparr>inputs := map (\<lambda>x. if x = old then new else x) (inputs nd)\<rparr>"

definition replaceAllUsesWith :: "nat \<Rightarrow> nat \<Rightarrow> GraphFuser \<Rightarrow> GraphFuser" where
  "replaceAllUsesWith old new s =
     s\<lparr>node_tab := map (\<lambda>(u, nd). (u, replace_in old new nd)) (node_tab s)\<rparr>"

text \<open>\<^verbatim>\<open>Node::replaceAllUsesWith\<close>: output by output, on nodes with as many outputs.\<close>

definition node_replaceAllUsesWith :: "nat \<Rightarrow> nat \<Rightarrow> GraphFuser \<Rightarrow> error + GraphFuser" where
  "node_replaceAllUsesWith n m s =
     bindE (getNode s n) (\<lambda>nd.
     bindE (getNode s m) (\<lambda>md.
     bindE (JIT_ASSERT ''outputs().size() == n->outputs().size()'' (length (outputs nd) = length (outputs md))) (\<lambda>_.
       Inr (fold (\<lambda>(a, b). replaceAllUsesWith a b) (zip (outputs nd) (outputs md)) s))))"

fun insert_before :: "nat \<Rightarrow> nat \<Rightarrow> nat list \<Rightarrow> nat list" where
  "insert_before n r [] = []"
| "insert_before n r (x # xs) = (if x = r then n # x # xs else x # insert_before n r xs)"

fun insert_after :: "nat \<Rightarrow> nat \<Rightarrow> nat list \<Rightarrow> nat list" where
  "insert_after n r [] = []"
| "insert_after n r (x # xs) = (if x = r then x # n # xs else x # insert_after n r xs)"

text \<open>
  Modelled from the spec: \<^verbatim>\<open>insertBefore\<close> and \<^verbatim>\<open>insertAfter\<close> put a node into the
  node list of the graph of the reference node, which has to be in that list.
\<close>

definition insertBefore :: "nat \<Rightarrow> nat \<Rightarrow> GraphFuser \<Rightarrow> error + GraphFuser" where
  "insertBefore n r s =
     bindE (getNode s r) (\<lambda>rd.
     bindE (getGraph s (owningGraph rd)) (\<lambda>gr.
     bindE (JIT_ASSERT ''inGraphList'' (r \<in> set (nodes gr) \<and> n \<notin> set (nodes gr))) (\<lambda>_.
       Inr (setGraph (owningGraph rd) (gr\<lparr>nodes := insert_before n r (nodes gr)\<rparr>) s))))"

definition node_insertAfter :: "nat \<Rightarrow> nat \<Rightarrow> GraphFuser \<Rightarrow> error + GraphFuser" where
  "node_insertAfter n r s =
     bindE (getNode s r) (\<lambda>rd.
     bindE (getGraph s (owningGraph rd)) (\<lambda>gr.
     bindE (JIT_ASSERT ''inGraphList'' (r \<in> set (nodes gr) \<and> n \<notin> set (nodes gr))) (\<lambda>_.
       Inr (setGraph (owningGraph rd) (gr\<lparr>nodes := insert_after n r (nodes gr)\<rparr>) s))))"

text \<open>
  Modelled from the spec: a destroyed node must have no remaining uses of its
  outputs; it leaves the node list of its graph, and its values die with it.
\<close>

definition destroy :: "nat \<Rightarrow> GraphFuser \<Rightarrow> error + GraphFuser" where
  "destroy n s =
     bindE (getNode s n) (\<lambda>nd.
     bindE (getGraph s (owningGraph nd)) (\<lambda>gr.
     bindE (JIT_ASSERT ''uses().size() == 0'' (list_all (\<lambda>v. uses s v = []) (outputs nd))) (\<lambda>_.
       Inr (s\<lparr>node_tab := AList.delete n (node_tab s),
              value_tab := filter (\<lambda>(v, x). v \<notin> set (outputs nd)) (value_tab s),
              graph_tab := AList.update (owningGraph nd)
                              (gr\<lparr>nodes := removeAll n (nodes gr)\<rparr>) (graph_tab s)\<rparr>))))"

subsection \<open>Graph capabilities\<close>

definition graph_inputs :: "GraphFuser \<Rightarrow> nat \<Rightarrow> error + nat list" where
  "graph_inputs s g =
     bindE (getGraph s g) (\<lambda>gr. bindE (getNode s (param_node gr)) (\<lambda>nd. Inr (outputs nd)))"

definition graph_outputs :: "GraphFuser \<Rightarrow> nat \<Rightarrow> error + nat list" where
  "graph_outputs s g =
     bindE (getGraph s g) (\<lambda>gr. bindE (getNode s (return_node gr)) (\<lambda>nd. Inr (inputs nd)))"

definition graph_addInput :: "nat \<Rightarrow> GraphFuser \<Rightarrow> error + (nat \<times> GraphFuser)" where
  "graph_addInput g s = bindE (getGraph s g) (\<lambda>gr. addOutput (param_node gr) s)"

definition registerOutput :: "nat \<Rightarrow> nat \<Rightarrow> GraphFuser \<Rightarrow> error + GraphFuser" where
  "registerOutput g v s = bindE (getGraph s g) (\<lambda>gr. addInput (return_node gr) v s)"

definition eraseInput :: "nat \<Rightarrow> nat \<Rightarrow> GraphFuser \<Rightarrow> error + GraphFuser" where
  "eraseInput g i s =
     bindE (getGraph s g) (\<lambda>gr.
     bindE (getNode s (param_node gr)) (\<lambda>nd.
       if i < length (outputs nd)
       then Inr (s\<lparr>node_tab := AList.update (param_node gr)
                       (nd\<lparr>outputs := take i (outputs nd) @ drop (Suc i) (outputs nd)\<rparr>)
                       (node_tab s),
                   value_tab := AList.delete (outputs nd ! i) (value_tab s)\<rparr>)
       else Inl OutOfRange))"

definition prependNode :: "nat \<Rightarrow> nat \<Rightarrow> GraphFuser \<Rightarrow> error + GraphFuser" where
  "prependNode g n s =
     bindE (getGraph s g) (\<lambda>gr. Inr (setGraph g (gr\<lparr>nodes := n # nodes gr\<rparr>) s))"

definition setStage :: "nat \<Rightarrow> nat \<Rightarrow> GraphFuser \<Rightarrow> error + GraphFuser" where
  "setStage g st s = bindE (getGraph s g) (\<lambda>gr. Inr (setGraph g (gr\<lparr>new_node_stage := st\<rparr>) s))"

text \<open>
  Modelled from the spec: \<^verbatim>\<open>createClone(src, remap)\<close> makes a node of the graph \<open>g\<close>
  with the kind and the attributes of \<open>src\<close>, the remapped inputs of \<open>src\<close>, and one
  fresh output for each output of \<open>src\<close>, with its type.
\<close>

fun mapE :: "('a \<Rightarrow> error + 'b) \<Rightarrow> 'a list \<Rightarrow> error + 'b list" where
  "mapE f [] = Inr []"
| "mapE f (x # xs) = bindE (f x) (\<lambda>y. bindE (mapE f xs) (\<lambda>ys. Inr (y # ys)))"

definition clone_output :: "nat \<Rightarrow> nat \<Rightarrow> GraphFuser \<Rightarrow> error + GraphFuser" where
  "clone_output n o_src s = bindE (addOutput n s) (\<lambda>(v, s'). copyMetadata v o_src s')"

definition createClone ::
  "nat \<Rightarrow> nat \<Rightarrow> (nat \<Rightarrow> error + nat) \<Rightarrow> GraphFuser \<Rightarrow> error + (nat \<times> GraphFuser)" where
  "createClone g src value_map s =
     bindE (getNode s src) (\<lambda>sd.
     bindE (create g (kind sd) 0 s) (\<lambda>(n, s1).
     bindE (copyAttributes n src s1) (\<lambda>s2.
     bindE (foldE (clone_output n) (outputs sd) s2) (\<lambda>s3.
     bindE (mapE value_map (inputs sd)) (\<lambda>ins.
     bindE (foldE (addInput n) ins s3) (\<lambda>s4.
       Inr (n, s4)))))))"

text \<open>
  Modelled from the spec: \<^verbatim>\<open>createFusionGroup\<close> makes a node of kind
  \<^verbatim>\<open>kFusionGroup\<close> without outputs whose subgraph is a new graph without inputs,
  outputs and nodes.
\<close>

definition new_graph :: "GraphFuser \<Rightarrow> nat \<times> GraphFuser" where
  "new_graph s =
     (let g = next_unique s; p = Suc g; r = Suc (Suc g);
          pd = \<lparr>kind = kParam, inputs = [], outputs = [], stage = 0, owningGraph = g,
                subgraph = None, attributes = []\<rparr>;
          rd = \<lparr>kind = kReturn, inputs = [], outputs = [], stage = 0, owningGraph = g,
                subgraph = None, attributes = []\<rparr>
      in (g, s\<lparr>node_tab := AList.update r rd (AList.update p pd (node_tab s)),
               graph_tab := AList.update g
                  \<lparr>nodes = [], param_node = p, return_node = r, new_node_stage = 0\<rparr>
                  (graph_tab s),
               next_unique := Suc (Suc (Suc g))\<rparr>))"

definition createFusionGroup :: "nat \<Rightarrow> GraphFuser \<Rightarrow> error + (nat \<times> GraphFuser)" where
  "createFusionGroup g s =
     bindE (create g kFusionGroup 0 s) (\<lambda>(n, s1).
       let (sg, s2) = new_graph s1 in
       bindE (getNode s2 n) (\<lambda>nd.
         Inr (n, setNode n (nd\<lparr>subgraph := Some sg\<rparr>) s2)))"


section \<open>The graph fuser\<close>

definition isSimpleMap :: "Node \<Rightarrow> bool" where
  "isSimpleMap nd =
     (if kind nd \<in> set simple_mappable then
        (if kind nd = kmin \<or> kind nd = kmax then length (inputs nd) = 2 else True)
      else False)"

definition isCuda :: "GraphFuser \<Rightarrow> nat \<Rightarrow> error + bool" where
  "isCuda s n =
     bindE (getNode s n) (\<lambda>nd.
     bindE (node_output nd) (\<lambda>v.
     bindE (getValue s v) (\<lambda>x.
     bindE (type x) (\<lambda>t.
     bindE (expect_TensorType t) (\<lambda>tt.
       Inr (device tt \<noteq> - 1))))))"

definition hasFloatType :: "GraphFuser \<Rightarrow> nat \<Rightarrow> error + bool" where
  "hasFloatType s v =
     bindE (getValue s v) (\<lambda>x.
       if \<not> hasType x then Inr False
       else bindE (type x) (\<lambda>t.
         case cast_TensorType t of
           Some tt \<Rightarrow> Inr (scalarType tt = kFloat)
         | None \<Rightarrow> Inr False))"

fun all_hasFloatType :: "GraphFuser \<Rightarrow> nat list \<Rightarrow> error + bool" where
  "all_hasFloatType s [] = Inr True"
| "all_hasFloatType s (v # vs) =
     bindE (hasFloatType s v) (\<lambda>b. if \<not> b then Inr False else all_hasFloatType s vs)"

definition allFloatIO :: "GraphFuser \<Rightarrow> nat \<Rightarrow> error + bool" where
  "allFloatIO s n =
     bindE (getNode s n) (\<lambda>nd.
     bindE (all_hasFloatType s (outputs nd)) (\<lambda>b.
       if \<not> b then Inr False else all_hasFloatType s (inputs nd)))"

definition isFusable :: "GraphFuser \<Rightarrow> nat \<Rightarrow> error + bool" where
  "isFusable s n =
     bindE (getNode s n) (\<lambda>nd.
       if kind nd = kFusionGroup then Inr True
       else if \<not> isSimpleMap nd then Inr False
       else bindE (allFloatIO s n) (\<lambda>b. if \<not> b then Inr False else isCuda s n))"

definition tensor_sizes :: "GraphFuser \<Rightarrow> nat \<Rightarrow> error + int list" where
  "tensor_sizes s v =
     bindE (getValue s v) (\<lambda>x.
     bindE (type x) (\<lambda>t.
     bindE (expect_TensorType t) (\<lambda>tt. Inr (sizes tt))))"

fun all_same_sizes :: "GraphFuser \<Rightarrow> int list \<Rightarrow> nat list \<Rightarrow> error + bool" where
  "all_same_sizes s sz [] = Inr True"
| "all_same_sizes s sz (i # is) =
     bindE (tensor_sizes s i) (\<lambda>sz'. if sz \<noteq> sz' then Inr False else all_same_sizes s sz is)"

definition isFusableAsExitNode :: "GraphFuser \<Rightarrow> nat \<Rightarrow> error + bool" where
  "isFusableAsExitNode s n =
     bindE (isFusable s n) (\<lambda>b.
       if b then Inr True
       else bindE (getNode s n) (\<lambda>nd.
         if kind nd \<noteq> kcat then Inr False
         else bindE (isCuda s n) (\<lambda>c.
           if \<not> c then Inr False
           else bindE (at (inputs nd) 0) (\<lambda>i0.
                bindE (tensor_sizes s i0) (\<lambda>sz.
                  all_same_sizes s sz (inputs nd))))))"

text \<open>
  \<^verbatim>\<open>topological_index[n]\<close> on a \<^verbatim>\<open>std::unordered_map\<close>: a missing key is inserted
  with the value 0.
\<close>

definition index_read :: "GraphFuser \<Rightarrow> nat \<Rightarrow> nat \<times> GraphFuser" where
  "index_read s n =
     (case map_of (topological_index s) n of
        None \<Rightarrow> (0, s\<lparr>topological_index := AList.update n 0 (topological_index s)\<rparr>)
      | Some i \<Rightarrow> (i, s))"

definition index_write :: "nat \<Rightarrow> nat \<Rightarrow> GraphFuser \<Rightarrow> GraphFuser" where
  "index_write n i s = s\<lparr>topological_index := AList.update n i (topological_index s)\<rparr>"

fun users_loop :: "nat \<Rightarrow> (nat \<times> nat) list \<Rightarrow> GraphFuser \<Rightarrow> bool \<times> GraphFuser" where
  "users_loop consumer [] s = (True, s)"
| "users_loop consumer (u # us) s =
     (if fst u \<noteq> consumer then
        (let (ic, s1) = index_read s consumer; (iu, s2) = index_read s1 (fst u)
         in if ic > iu then (False, s2) else users_loop consumer us s2)
      else users_loop consumer us s)"

definition allUsersAreThisConsumerOrOccurAfterIt ::
  "nat \<Rightarrow> nat \<Rightarrow> GraphFuser \<Rightarrow> bool \<times> GraphFuser" where
  "allUsersAreThisConsumerOrOccurAfterIt consumer producer s =
     users_loop consumer (uses s producer) s"

definition allUsersAreThisConsumer :: "GraphFuser \<Rightarrow> nat \<Rightarrow> nat \<Rightarrow> bool" where
  "allUsersAreThisConsumer s consumer producer =
     list_all (\<lambda>u. fst u = consumer) (uses s producer)"

definition shouldFuse :: "nat \<Rightarrow> nat \<Rightarrow> GraphFuser \<Rightarrow> error + (bool \<times> GraphFuser)" where
  "shouldFuse consumer producer s =
     bindE (getValue s producer) (\<lambda>pv.
     bindE (isFusable s (node pv)) (\<lambda>b.
       if \<not> b then Inr (False, s)
       else Inr (allUsersAreThisConsumerOrOccurAfterIt consumer producer s)))"

definition getSubgraph :: "GraphFuser \<Rightarrow> nat \<Rightarrow> error + nat" where
  "getSubgraph s n =
     bindE (getNode s n) (\<lambda>nd.
     bindE (JIT_ASSERT ''n->kind() == kFusionGroup'' (kind nd = kFusionGroup)) (\<lambda>_.
       case subgraph nd of None \<Rightarrow> Inl (AssertionFailure ''g(kSubgraph)'') | Some g \<Rightarrow> Inr g))"

text \<open>
  The local maps \<^verbatim>\<open>inputs_map\<close> and \<^verbatim>\<open>inner_to_outer\<close>: \<^verbatim>\<open>m[k] = v\<close> for each
  pair in turn, \<^verbatim>\<open>m.at(k)\<close>, and \<^verbatim>\<open>m[k]\<close> as an rvalue (null on a missing key).
\<close>

definition map_add_list :: "(nat \<times> nat) list \<Rightarrow> (nat \<times> nat) list \<Rightarrow> (nat \<times> nat) list" where
  "map_add_list m kvs = fold (\<lambda>(k, v). AList.update k v) kvs m"

definition map_at :: "(nat \<times> nat) list \<Rightarrow> nat \<Rightarrow> error + nat" where
  "map_at m k = (case map_of m k of None \<Rightarrow> Inl OutOfRange | Some v \<Rightarrow> Inr v)"

definition map_get :: "(nat \<times> nat) list \<Rightarrow> nat \<Rightarrow> error + nat" where
  "map_get m k = deref (map_of m k)"

definition add_group_input ::
  "nat \<Rightarrow> nat \<Rightarrow> nat \<Rightarrow> (nat \<times> nat) list \<times> GraphFuser
     \<Rightarrow> error + ((nat \<times> nat) list \<times> GraphFuser)" where
  "add_group_input grp sg i ms =
     (case ms of (inputs_map, s) \<Rightarrow>
       if map_of inputs_map i \<noteq> None then Inr (inputs_map, s)
       else bindE (graph_addInput sg s) (\<lambda>(in_group, s1).
            bindE (getValue s1 i) (\<lambda>iv.
            bindE (setType in_group (typeOption iv) s1) (\<lambda>s2.
            bindE (addInput grp i s2) (\<lambda>s3.
              Inr (AList.update i in_group inputs_map, s3))))))"

definition find_index :: "nat \<Rightarrow> nat list \<Rightarrow> nat" where
  "find_index x xs = length (takeWhile (\<lambda>y. y \<noteq> x) xs)"

definition mergeNodeIntoGroup :: "nat \<Rightarrow> nat \<Rightarrow> GraphFuser \<Rightarrow> error + (nat \<times> GraphFuser)" where
  "mergeNodeIntoGroup grp n s =
     bindE (getNode s n) (\<lambda>nd.
     bindE (JIT_ASSERT ''n->kind() != kFusionGroup'' (kind nd \<noteq> kFusionGroup)) (\<lambda>_.
     bindE (getSubgraph s grp) (\<lambda>sg.
     bindE (getNode s grp) (\<lambda>gd.
     bindE (graph_inputs s sg) (\<lambda>sub_inputs.
     bindE (JIT_ASSERT ''group->inputs().size() == subgraph.inputs().size()'' (length (inputs gd) = length sub_inputs)) (\<lambda>_.
     bindE (foldE (add_group_input grp sg) (inputs nd)
              (map_add_list [] (zip (inputs gd) sub_inputs), s)) (\<lambda>(inputs_map, s1).
     bindE (createClone sg n (map_get inputs_map) s1) (\<lambda>(in_graph, s2).
     bindE (getNode s2 grp) (\<lambda>gd2.
     bindE (node_output nd) (\<lambda>n_out.
     bindE (if n_out \<in> set (inputs gd2) then
              (let p = find_index n_out (inputs gd2) in
               bindE (removeInput grp p s2) (\<lambda>s3.
               bindE (graph_inputs s3 sg) (\<lambda>si.
               bindE (at si p) (\<lambda>sp.
               bindE (getNode s3 in_graph) (\<lambda>igd.
               bindE (node_output igd) (\<lambda>ig_out.
                 eraseInput sg p (replaceAllUsesWith sp ig_out s3)))))))
            else Inr s2) (\<lambda>s4.
     bindE (prependNode sg in_graph s4) (\<lambda>s5.
       Inr (in_graph, s5)))))))))))))"

definition clone_inner ::
  "nat \<Rightarrow> nat \<Rightarrow> (nat \<times> nat) list \<times> nat list \<times> GraphFuser
     \<Rightarrow> error + ((nat \<times> nat) list \<times> nat list \<times> GraphFuser)" where
  "clone_inner producer_group inner mts =
     (case mts of (inner_to_outer, temporary_nodes, s) \<Rightarrow>
       bindE (createClone (graph s) inner (map_at inner_to_outer) s) (\<lambda>(outer, s1).
       bindE (insertBefore outer producer_group s1) (\<lambda>s2.
       bindE (getNode s2 inner) (\<lambda>ind.
       bindE (getNode s2 outer) (\<lambda>oud.
         Inr (map_add_list inner_to_outer (zip (outputs ind) (outputs oud)),
              temporary_nodes @ [outer], s2))))))"

definition reroute_group_output ::
  "nat \<Rightarrow> (nat \<times> nat) list \<Rightarrow> nat \<times> nat \<Rightarrow> GraphFuser \<Rightarrow> error + GraphFuser" where
  "reroute_group_output producer_group inner_to_outer oi s =
     (case oi of (subgraph_output, i) \<Rightarrow>
       bindE (map_at inner_to_outer subgraph_output) (\<lambda>outer_output.
       bindE (getNode s producer_group) (\<lambda>pd.
       bindE (at (outputs pd) i) (\<lambda>v.
         Inr (replaceAllUsesWith v outer_output s)))))"

definition expose_output ::
  "nat \<Rightarrow> nat \<Rightarrow> nat \<Rightarrow> nat \<times> nat \<Rightarrow> GraphFuser \<Rightarrow> error + GraphFuser" where
  "expose_output consumer_group consumer_subgraph merged oi s =
     (case oi of (out, i) \<Rightarrow>
       if length (uses s out) = 0 then Inr s
       else bindE (getNode s merged) (\<lambda>md.
            bindE (at (outputs md) i) (\<lambda>mo.
            bindE (registerOutput consumer_subgraph mo s) (\<lambda>s1.
            bindE (addOutput consumer_group s1) (\<lambda>(new_output, s2).
            bindE (getValue s2 out) (\<lambda>ov.
              setType new_output (typeOption ov)
                (replaceAllUsesWith out new_output s2)))))))"

definition inline_temporary :: "nat \<Rightarrow> nat \<Rightarrow> nat \<Rightarrow> GraphFuser \<Rightarrow> error + GraphFuser" where
  "inline_temporary consumer_group consumer_subgraph n s =
     bindE (mergeNodeIntoGroup consumer_group n s) (\<lambda>(merged, s1).
     bindE (getNode s1 n) (\<lambda>nd.
     bindE (foldE (expose_output consumer_group consumer_subgraph merged)
              (zip (outputs nd) [0..<length (outputs nd)]) s1) (\<lambda>s2.
       destroy n s2)))"

definition mergeFusionGroups :: "nat \<Rightarrow> nat \<Rightarrow> GraphFuser \<Rightarrow> error + GraphFuser" where
  "mergeFusionGroups consumer_group producer_group s =
     bindE (getSubgraph s producer_group) (\<lambda>producer_subgraph.
     bindE (graph_inputs s producer_subgraph) (\<lambda>inner_inputs.
     bindE (getNode s producer_group) (\<lambda>pd.
     bindE (if length inner_inputs \<le> length (inputs pd) then Inr () else Inl OutOfRange) (\<lambda>_.
     bindE (getGraph s producer_subgraph) (\<lambda>pg.
     bindE (foldE (clone_inner producer_group) (nodes pg)
              (map_add_list [] (zip inner_inputs (inputs pd)), [], s))
           (\<lambda>(inner_to_outer, temporary_nodes, s1).
     bindE (graph_outputs s1 producer_subgraph) (\<lambda>subgraph_outputs.
     bindE (foldE (reroute_group_output producer_group inner_to_outer)
              (zip subgraph_outputs [0..<length subgraph_outputs]) s1) (\<lambda>s2.
     bindE (destroy producer_group s2) (\<lambda>s3.
     bindE (getSubgraph s3 consumer_group) (\<lambda>consumer_subgraph.
       foldE (inline_temporary consumer_group consumer_subgraph)
         (rev temporary_nodes) s3))))))))))"

definition createSingletonFusionGroup :: "nat \<Rightarrow> GraphFuser \<Rightarrow> error + (nat \<times> GraphFuser)" where
  "createSingletonFusionGroup n s =
     bindE (createFusionGroup (graph s) s) (\<lambda>(grp, s1).
       let (i, s1') = index_read s1 n; s2 = index_write grp i s1' in
       bindE (insertBefore grp n s2) (\<lambda>s3.
       bindE (mergeNodeIntoGroup grp n s3) (\<lambda>(mergedNode, s4).
       bindE (getSubgraph s4 grp) (\<lambda>sg.
       bindE (getNode s4 mergedNode) (\<lambda>md.
       bindE (node_output md) (\<lambda>mo.
       bindE (registerOutput sg mo s4) (\<lambda>s5.
       bindE (addOutput grp s5) (\<lambda>(sel, s6).
       bindE (getNode s6 n) (\<lambda>nd.
       bindE (node_output nd) (\<lambda>n_out.
       bindE (copyMetadata sel n_out s6) (\<lambda>s7.
       bindE (node_replaceAllUsesWith n grp s7) (\<lambda>s8.
       bindE (destroy n s8) (\<lambda>s9.
         Inr (grp, s9))))))))))))))"

definition insertAfter :: "nat \<Rightarrow> nat \<Rightarrow> GraphFuser \<Rightarrow> error + GraphFuser" where
  "insertAfter n after s =
     bindE (node_insertAfter n after s) (\<lambda>s1.
       let (i, s2) = index_read s1 after in Inr (index_write n i s2))"

text \<open>\<^verbatim>\<open>insertAt\<close> returns the new insertion point with the state.\<close>

definition insertAt :: "nat \<Rightarrow> nat \<Rightarrow> GraphFuser \<Rightarrow> error + (nat \<times> GraphFuser)" where
  "insertAt insertion_point n s = bindE (insertAfter n insertion_point s) (\<lambda>s1. Inr (n, s1))"

definition fuse :: "nat \<Rightarrow> nat \<Rightarrow> GraphFuser \<Rightarrow> error + (nat \<times> GraphFuser)" where
  "fuse consumer producer s =
     bindE (getNode s consumer) (\<lambda>cd.
     bindE (if kind cd \<noteq> kFusionGroup then createSingletonFusionGroup consumer s
            else Inr (consumer, s)) (\<lambda>(grp, s1).
     bindE (getValue s1 producer) (\<lambda>pv.
     bindE (getNode s1 (node pv)) (\<lambda>pd.
       if kind pd = kFusionGroup then
         bindE (mergeFusionGroups grp (node pv) s1) (\<lambda>s2. Inr (grp, s2))
       else
         bindE (mergeNodeIntoGroup grp (node pv) s1) (\<lambda>(merged, s2).
         bindE (if length (uses s2 producer) \<noteq> 0 then
                  bindE (getSubgraph s2 grp) (\<lambda>sg.
                  bindE (getNode s2 merged) (\<lambda>md.
                  bindE (node_output md) (\<lambda>mo.
                  bindE (registerOutput sg mo s2) (\<lambda>s3.
                  bindE (addOutput grp s3) (\<lambda>(new_producer, s4).
                  bindE (copyMetadata new_producer producer s4) (\<lambda>s5.
                    Inr (replaceAllUsesWith producer new_producer s5)))))))
                else Inr s2) (\<lambda>s6.
         bindE (getValue s6 producer) (\<lambda>pv6.
         bindE (destroy (node pv6) s6) (\<lambda>s7.
           Inr (grp, s7)))))))))"


subsection \<open>Distributing a chunk over the operands of its producer\<close>

definition isChunk :: "GraphFuser \<Rightarrow> nat \<Rightarrow> error + bool" where
  "isChunk s n = bindE (getNode s n) (\<lambda>nd. Inr (kind nd = ksplit))"

definition chunk_outputs_used_by :: "GraphFuser \<Rightarrow> nat \<Rightarrow> nat list \<Rightarrow> bool" where
  "chunk_outputs_used_by s consumer outs =
     list_all (\<lambda>v. list_all (\<lambda>u. fst u = consumer) (uses s v)) outs"

definition chunk_input_sel ::
  "TensorType option \<Rightarrow> nat \<Rightarrow> nat \<Rightarrow> nat list \<times> GraphFuser
     \<Rightarrow> error + (nat list \<times> GraphFuser)" where
  "chunk_input_sel input_type input_chunk chunk_sel vs =
     (case vs of (sels, s) \<Rightarrow>
       bindE (getValue s chunk_sel) (\<lambda>cv.
       bindE (type cv) (\<lambda>ct.
       bindE (addOutput input_chunk s) (\<lambda>(input_chunk_sel, s1).
       bindE (deref input_type) (\<lambda>it.
       bindE (deref (cast_TensorType ct)) (\<lambda>chunk_sel_type.
       bindE (setType input_chunk_sel
                (Some (TensorT (withSizesStrides it (sizes chunk_sel_type)
                                  (strides chunk_sel_type)))) s1) (\<lambda>s2.
         Inr (sels @ [input_chunk_sel], s2))))))))"

definition chunk_operand ::
  "nat \<Rightarrow> nat \<Rightarrow> nat \<times> nat list list \<times> GraphFuser
     \<Rightarrow> error + (nat \<times> nat list list \<times> GraphFuser)" where
  "chunk_operand chunk i pcs =
     (case pcs of (insertion_point, chunked_inputs, s) \<Rightarrow>
       bindE (getValue s i) (\<lambda>iv.
       bindE (type iv) (\<lambda>ity.
       bindE (create (graph s) ksplit 0 s) (\<lambda>(input_chunk, s1).
       bindE (copyAttributes input_chunk chunk s1) (\<lambda>s2.
       bindE (addInput input_chunk i s2) (\<lambda>s3.
       bindE (insertAt insertion_point input_chunk s3) (\<lambda>(ip, s4).
       bindE (getNode s4 chunk) (\<lambda>cd.
       bindE (foldE (chunk_input_sel (cast_TensorType ity) input_chunk) (outputs cd) ([], s4))
             (\<lambda>(sels, s5).
         Inr (ip, chunked_inputs @ [sels], s5))))))))))"

definition chunk_op ::
  "nat \<Rightarrow> nat list list \<Rightarrow> nat \<Rightarrow> nat \<times> GraphFuser \<Rightarrow> error + (nat \<times> GraphFuser)" where
  "chunk_op producer_for_chunk_node chunked_inputs chunk_sel ps =
     (case ps of (insertion_point, s) \<Rightarrow>
       bindE (getNode s producer_for_chunk_node) (\<lambda>pd.
       bindE (create (graph s) (kind pd) 1 s) (\<lambda>(chunked_op, s1).
       bindE (copyAttributes chunked_op producer_for_chunk_node s1) (\<lambda>s2.
       bindE (getNode s2 chunked_op) (\<lambda>cod.
       bindE (node_output cod) (\<lambda>co.
       bindE (getValue s2 chunk_sel) (\<lambda>cv.
       bindE (type cv) (\<lambda>ct.
       bindE (deref (cast_TensorType ct)) (\<lambda>chunk_sel_type.
       bindE (setType co (Some (TensorT (contiguous chunk_sel_type))) s2) (\<lambda>s3.
       bindE (offset s3 chunk_sel) (\<lambda>off.
       bindE (foldE (\<lambda>by_chunk_output_idx s'.
                bindE (at by_chunk_output_idx off) (\<lambda>v. addInput chunked_op v s'))
                chunked_inputs s3) (\<lambda>s4.
       bindE (insertAt insertion_point chunked_op s4) (\<lambda>(ip, s5).
         Inr (ip, replaceAllUsesWith chunk_sel co s5))))))))))))))"

definition tryToMoveChunk :: "nat \<Rightarrow> nat \<Rightarrow> GraphFuser \<Rightarrow> error + (bool \<times> GraphFuser)" where
  "tryToMoveChunk consumer producer s =
     bindE (getValue s producer) (\<lambda>pv.
     bindE (isChunk s (node pv)) (\<lambda>b.
       if \<not> b then Inr (False, s)
       else
         bindE (getNode s (node pv)) (\<lambda>cd.
         bindE (node_input cd) (\<lambda>producer_for_chunk.
         bindE (getValue s producer_for_chunk) (\<lambda>pfv.
         bindE (isFusable s (node pfv)) (\<lambda>f.
           if \<not> f \<or> \<not> allUsersAreThisConsumer s (node pv) producer_for_chunk
           then Inr (False, s)
           else if \<not> chunk_outputs_used_by s consumer (outputs cd) then Inr (False, s)
           else
             bindE (getNode s (node pfv)) (\<lambda>pd.
             bindE (JIT_ASSERT ''producer_for_chunk_node->outputs().size() == 1'' (length (outputs pd) = 1)) (\<lambda>_.
             bindE (foldE (chunk_operand (node pv)) (inputs pd) (node pv, [], s))
                   (\<lambda>(ip, chunked_inputs, s1).
             bindE (getNode s1 (node pv)) (\<lambda>cd1.
             bindE (foldE (chunk_op (node pfv) chunked_inputs) (outputs cd1) (ip, s1))
                   (\<lambda>(ip2, s2).
             bindE (destroy (node pv) s2) (\<lambda>s3.
             bindE (destroy (node pfv) s3) (\<lambda>s4.
               Inr (True, s4))))))))))))))"

subsection \<open>Scanning\<close>

fun assert_indexed :: "GraphFuser \<Rightarrow> nat list \<Rightarrow> error + unit" where
  "assert_indexed s [] = Inr ()"
| "assert_indexed s (i # is) =
     bindE (getValue s i) (\<lambda>x.
     bindE (JIT_ASSERT ''topological_index.count(i->node()) > 0'' (map_of (topological_index s) (node x) \<noteq> None)) (\<lambda>_.
       assert_indexed s is))"

definition producer_key :: "GraphFuser \<Rightarrow> nat \<Rightarrow> nat" where
  "producer_key s v =
     (case map_of (value_tab s) v of
        None \<Rightarrow> 0
      | Some x \<Rightarrow> (case map_of (topological_index s) (node x) of None \<Rightarrow> 0 | Some i \<Rightarrow> i))"

text \<open>
  \<^verbatim>\<open>std::sort\<close> with the comparator \<^verbatim>\<open>index[a->node()] > index[b->node()]\<close>:
  descending in the index; values of equal index keep their order here.
\<close>

definition sort_inputs :: "GraphFuser \<Rightarrow> nat list \<Rightarrow> nat list" where
  "sort_inputs s vs = sort_key (\<lambda>v. - int (producer_key s v)) vs"

text \<open>
  The loop over the sorted producers: \<open>Some it\<close> when a chunk was moved or a fusion
  was made (the node to scan next), \<open>None\<close> when no producer matched.
\<close>

fun scan_producers ::
  "nat \<Rightarrow> nat list \<Rightarrow> GraphFuser \<Rightarrow> error + (nat option \<times> GraphFuser)" where
  "scan_producers consumer [] s = Inr (None, s)"
| "scan_producers consumer (producer # ps) s =
     bindE (value_stage s producer) (\<lambda>pst.
     bindE (getNode s consumer) (\<lambda>cd.
       if pst \<noteq> stage cd then scan_producers consumer ps s
       else
         bindE (tryToMoveChunk consumer producer s) (\<lambda>(moved, s1).
           if moved then Inr (Some consumer, s1)
           else
             bindE (shouldFuse consumer producer s1) (\<lambda>(sf, s2).
               if sf then bindE (fuse consumer producer s2) (\<lambda>(fusion_group, s3).
                            Inr (Some fusion_group, s3))
               else scan_producers consumer ps s2))))"

fun prev_in :: "nat \<Rightarrow> nat list \<Rightarrow> nat option" where
  "prev_in n [] = None"
| "prev_in n [x] = None"
| "prev_in n (x # y # ys) = (if y = n then Some x else prev_in n (y # ys))"

definition prev_node :: "GraphFuser \<Rightarrow> nat \<Rightarrow> error + nat option" where
  "prev_node s n = bindE (getGraph s (graph s)) (\<lambda>gr. Inr (prev_in n (nodes gr)))"

definition scanNode :: "nat \<Rightarrow> GraphFuser \<Rightarrow> error + (nat option \<times> bool \<times> GraphFuser)" where
  "scanNode consumer s =
     bindE (getNode s consumer) (\<lambda>cd.
     bindE (getGraph s (graph s)) (\<lambda>gr.
     bindE (setStage (graph s) (stage cd) s) (\<lambda>s0.
     bindE (isFusableAsExitNode s0 consumer) (\<lambda>b.
     bindE (if b then
              bindE (assert_indexed s0 (inputs cd)) (\<lambda>_.
                scan_producers consumer (sort_inputs s0 (inputs cd)) s0)
            else Inr (None, s0)) (\<lambda>(r, s1).
     bindE (setStage (graph s1) (new_node_stage gr) s1) (\<lambda>s2.
       case r of
         Some it \<Rightarrow> Inr (Some it, True, s2)
       | None \<Rightarrow> bindE (prev_node s2 consumer) (\<lambda>pr. Inr (pr, False, s2))))))))"

subsection \<open>The driver\<close>

definition init_index :: "GraphFuser \<Rightarrow> error + GraphFuser" where
  "init_index s =
     bindE (graph_inputs s (graph s)) (\<lambda>ins.
     bindE (foldE (\<lambda>p s'. bindE (getValue s' p) (\<lambda>x. Inr (index_write (node x) 0 s'))) ins s)
           (\<lambda>s1.
     bindE (getGraph s1 (graph s1)) (\<lambda>gr.
       Inr (index_write (return_node gr) (Suc (length (nodes gr)))
              (fold (\<lambda>(n, i). index_write n i)
                 (zip (nodes gr) [1..<Suc (length (nodes gr))]) s1)))))"

definition rbegin :: "GraphFuser \<Rightarrow> error + nat option" where
  "rbegin s =
     bindE (getGraph s (graph s)) (\<lambda>gr.
       Inr (if nodes gr = [] then None else Some (last (nodes gr))))"

text \<open>
  One sweep from the iterator \<open>it\<close> back to \<^verbatim>\<open>rend\<close> (\<open>None\<close>), and the loop of
  sweeps.  Neither loop has a bound in the source: the fuel counts calls of
  \<^verbatim>\<open>scanNode\<close> in a sweep, and sweeps; the result \<open>None\<close> is fuel exhausted.
\<close>

fun sweep ::
  "nat \<Rightarrow> nat option \<Rightarrow> bool \<Rightarrow> GraphFuser \<Rightarrow> (error + (bool \<times> GraphFuser)) option" where
  "sweep fuel None any_changed s = Some (Inr (any_changed, s))"
| "sweep 0 (Some consumer) any_changed s = None"
| "sweep (Suc fuel) (Some consumer) any_changed s =
     (case scanNode consumer s of
        Inl e \<Rightarrow> Some (Inl e)
      | Inr (it, changed, s') \<Rightarrow> sweep fuel it (any_changed \<or> changed) s')"

fun run_loop :: "nat \<Rightarrow> GraphFuser \<Rightarrow> (error + GraphFuser) option" where
  "run_loop 0 s = None"
| "run_loop (Suc fuel) s =
     (case rbegin s of
        Inl e \<Rightarrow> Some (Inl e)
      | Inr it \<Rightarrow>
          (case sweep fuel it False s of
             None \<Rightarrow> None
           | Some (Inl e) \<Rightarrow> Some (Inl e)
           | Some (Inr (any_changed, s')) \<Rightarrow>
               if any_changed then run_loop fuel s' else Some (Inr s')))"

definition run :: "nat \<Rightarrow> GraphFuser \<Rightarrow> (error + GraphFuser) option" where
  "run fuel s = (case init_index s of Inl e \<Rightarrow> Some (Inl e) | Inr s' \<Rightarrow> run_loop fuel s')"

text \<open>\<^verbatim>\<open>FuseGraph\<close> runs a new \<^verbatim>\<open>GraphFuser\<close>, whose index map is empty.\<close>

definition FuseGraph :: "nat \<Rightarrow> GraphFuser \<Rightarrow> (error + GraphFuser) option" where
  "FuseGraph fuel s = run fuel (s\<lparr>topological_index := []\<rparr>)"

section \<open>Definitions for the properties\<close>

text \<open>The index of a node as \<^verbatim>\<open>topological_index[n]\<close> reads it: 0 for a missing key.\<close>

definition index_of :: "GraphFuser \<Rightarrow> nat \<Rightarrow> nat" where
  "index_of s n = (case map_of (topological_index s) n of None \<Rightarrow> 0 | Some i \<Rightarrow> i)"

definition min3 :: Node where
  "min3 = \<lparr>kind = kmin, inputs = [3, 4, 5], outputs = [6], stage = 0, owningGraph = 0,
            subgraph = None, attributes = []\<rparr>"

definition float_cuda :: "int list \<Rightarrow> Type option" where
  "float_cuda sz =
     Some (TensorT \<lparr>scalarType = kFloat, device = 0, sizes = sz,
                     strides = contiguousStridesOf sz\<rparr>)"

definition mkNode :: "NodeKind \<Rightarrow> nat list \<Rightarrow> nat list \<Rightarrow> nat \<Rightarrow> Node" where
  "mkNode k ins outs g =
     \<lparr>kind = k, inputs = ins, outputs = outs, stage = 0, owningGraph = g, subgraph = None,
      attributes = []\<rparr>"

definition mkValue :: "nat \<Rightarrow> Type option \<Rightarrow> Value" where
  "mkValue n t = \<lparr>node = n, typeOption = t\<rparr>"

definition ex_multi_use :: GraphFuser where
  "ex_multi_use =
     \<lparr>node_tab = [(1, mkNode kParam [] [3, 4] 0), (2, mkNode kReturn [13, 8] [] 0),
                  (5, mkNode kadd [3, 4] [6] 0), (7, mkNode kneg [6] [8] 0),
                  (9, mkNode ksplit [6] [10, 11] 0), (12, mkNode kmul [10, 11] [13] 0)],
      value_tab = [(3, mkValue 1 (float_cuda [4, 2])), (4, mkValue 1 (float_cuda [4, 2])),
                   (6, mkValue 5 (float_cuda [4, 2])), (8, mkValue 7 (float_cuda [4, 2])),
                   (10, mkValue 9 (float_cuda [2, 2])), (11, mkValue 9 (float_cuda [2, 2])),
                   (13, mkValue 12 (float_cuda [2, 2]))],
      graph_tab = [(0, \<lparr>nodes = [5, 7, 9, 12], param_node = 1, return_node = 2,
                        new_node_stage = 0\<rparr>)],
      next_unique = 14, graph = 0, topological_index = []\<rparr>"

definition ex_multi_use_indexed :: GraphFuser where
  "ex_multi_use_indexed =
     ex_multi_use\<lparr>topological_index := [(1, 0), (5, 1), (7, 2), (9, 3), (12, 4), (2, 5)]\<rparr>"

definition ex_untyped :: GraphFuser where
  "ex_untyped =
     \<lparr>node_tab = [(1, mkNode kParam [] [3, 4] 0), (2, mkNode kReturn [6] [] 0),
                  (5, mkNode kadd [3, 4] [6] 0)],
      value_tab = [(3, mkValue 1 (float_cuda [4, 2])), (4, mkValue 1 (float_cuda [4, 2])),
                   (6, mkValue 5 None)],
      graph_tab = [(0, \<lparr>nodes = [5], param_node = 1, return_node = 2, new_node_stage = 0\<rparr>)],
      next_unique = 7, graph = 0, topological_index = []\<rparr>"

definition failure_of :: "(error + 'a) option \<Rightarrow> error option" where
  "failure_of r = (case r of Some (Inl e) \<Rightarrow> Some e | _ \<Rightarrow> None)"

definition returned :: "error + (bool \<times> 'a) \<Rightarrow> bool option" where
  "returned r = (case r of Inl e \<Rightarrow> None | Inr (b, s) \<Rightarrow> Some b)"

definition has_float :: "GraphFuser \<Rightarrow> nat \<Rightarrow> bool" where
  "has_float s v =
     (case map_of (value_tab s) v of
        Some x \<Rightarrow> (case typeOption x of Some (TensorT tt) \<Rightarrow> scalarType tt = kFloat | _ \<Rightarrow> False)
      | None \<Rightarrow> False)"

section \<open>Properties\<close>

lemma bindE_Inl [simp]: "bindE (Inl e) f = Inl e"
  by (simp add: bindE_def)

lemma bindE_Inr [simp]: "bindE (Inr x) f = f x"
  by (simp add: bindE_def)

lemma bindE_eq_Inr: "bindE m f = Inr y \<longleftrightarrow> (\<exists>x. m = Inr x \<and> f x = Inr y)"
  by (cases m) auto

lemma kFusionGroup_not_simple: "kFusionGroup \<notin> set simple_mappable"
  by (simp add: simple_mappable_def kind_defs)

text \<open>
  Claim C5, as amended: \<^verbatim>\<open>isSimpleMap\<close> holds of a node exactly when its kind is in
  \<^verbatim>\<open>simple_mappable\<close> and, for the kinds \<^verbatim>\<open>min\<close> and \<^verbatim>\<open>max\<close>, the node has
  exactly two inputs.
\<close>

theorem isSimpleMap_min_max_binary:
  "isSimpleMap nd \<longleftrightarrow>
     kind nd \<in> set simple_mappable \<and>
     ((kind nd = kmin \<or> kind nd = kmax) \<longrightarrow> length (inputs nd) = 2)"
  by (auto simp: isSimpleMap_def)

text \<open>A binary \<^verbatim>\<open>min\<close> is a simple map, the ternary one is not.\<close>

theorem isSimpleMap_min_max_binary_witness:
  "isSimpleMap (min3\<lparr>inputs := [3, 4]\<rparr>) \<and> \<not> isSimpleMap min3"
  using isSimpleMap_min_max_binary[of "min3\<lparr>inputs := [3, 4]\<rparr>"] isSimpleMap_min_max_binary[of min3]
  by (simp add: min3_def simple_mappable_def kind_defs)

text \<open>
  Claim C5 as stated excludes only the \<^verbatim>\<open>min\<close>/\<^verbatim>\<open>max\<close> nodes with exactly one
  input; a \<^verbatim>\<open>min\<close> node with three inputs is rejected too.
\<close>

theorem isSimpleMap_ternary_min_counterexample:
  "\<not> (isSimpleMap min3 \<longleftrightarrow>
        kind min3 \<in> set simple_mappable \<and>
        \<not> ((kind min3 = kmin \<or> kind min3 = kmax) \<and> length (inputs min3) = 1))"
  by (simp add: isSimpleMap_def min3_def simple_mappable_def kind_defs)

lemma index_read_index_of: "index_of (snd (index_read s n)) m = index_of s m"
  by (auto simp: index_read_def index_of_def update_conv' split: option.splits)

lemma index_read_fst: "fst (index_read s n) = index_of s n"
  by (auto simp: index_read_def index_of_def split: option.splits)

lemma users_loop_iff:
  "fst (users_loop c us s) \<longleftrightarrow>
     (\<forall>u \<in> set us. fst u = c \<or> \<not> index_of s c > index_of s (fst u))"
proof (induction us arbitrary: s)
  case Nil
  then show ?case by simp
next
  case (Cons u us)
  obtain ic s1 where r1: "index_read s c = (ic, s1)" by (cases "index_read s c")
  obtain iu s2 where r2: "index_read s1 (fst u) = (iu, s2)" by (cases "index_read s1 (fst u)")
  have ic: "ic = index_of s c" using index_read_fst[of s c] r1 by simp
  have s1: "\<And>m. index_of s1 m = index_of s m" using index_read_index_of[of s c] r1 by simp
  have iu: "iu = index_of s (fst u)" using index_read_fst[of s1 "fst u"] r2 s1 by simp
  have s2: "\<And>m. index_of s2 m = index_of s m" using index_read_index_of[of s1 "fst u"] r2 s1 by simp
  show ?case
    using Cons.IH[of s] Cons.IH[of s2] r1 r2 ic iu s2 by auto
qed

text \<open>
  Claim C3: \<^verbatim>\<open>shouldFuse(consumer, producer)\<close> returns true exactly when the node of
  the producer is fusable and every use of the producer is by the consumer or by a
  node that is not strictly before the consumer in the topological index.
\<close>

theorem shouldFuse_iff:
  "(\<exists>s'. shouldFuse consumer producer s = Inr (True, s')) \<longleftrightarrow>
     (\<exists>pv. map_of (value_tab s) producer = Some pv \<and> isFusable s (node pv) = Inr True) \<and>
     (\<forall>u \<in> set (uses s producer).
        fst u = consumer \<or> \<not> index_of s consumer > index_of s (fst u))"
proof (cases "map_of (value_tab s) producer")
  case None
  then show ?thesis by (simp add: shouldFuse_def getValue_def)
next
  case (Some pv)
  show ?thesis
  proof (cases "isFusable s (node pv)")
    case (Inl e)
    then show ?thesis using Some by (simp add: shouldFuse_def getValue_def)
  next
    case (Inr b)
    have "fst (users_loop consumer (uses s producer) s) \<longleftrightarrow>
       (\<forall>u \<in> set (uses s producer).
          fst u = consumer \<or> \<not> index_of s consumer > index_of s (fst u))"
      by (rule users_loop_iff)
    then show ?thesis using Some Inr
      by (cases "users_loop consumer (uses s producer) s")
         (auto simp: shouldFuse_def getValue_def allUsersAreThisConsumerOrOccurAfterIt_def)
  qed
qed

text \<open>In the multi-use example, \<^verbatim>\<open>neg\<close> may absorb \<^verbatim>\<open>add\<close>, whose other user is later.\<close>

theorem shouldFuse_iff_witness: "\<exists>s'. shouldFuse 7 6 ex_multi_use_indexed = Inr (True, s')"
proof -
  have a: "map_of (value_tab ex_multi_use_indexed) 6 = Some (mkValue 5 (float_cuda [4, 2]))"
    by (simp add: ex_multi_use_indexed_def ex_multi_use_def)
  have b: "isFusable ex_multi_use_indexed (node (mkValue 5 (float_cuda [4, 2]))) = Inr True"
    by code_simp
  have c: "\<forall>u \<in> set (uses ex_multi_use_indexed 6).
        fst u = 7 \<or> \<not> index_of ex_multi_use_indexed 7 > index_of ex_multi_use_indexed (fst u)"
    by code_simp
  show ?thesis using shouldFuse_iff[of 7 6 ex_multi_use_indexed] a b c by blast
qed

lemma hasFloatType_live:
  "map_of (value_tab s) v \<noteq> None \<Longrightarrow> hasFloatType s v = Inr (has_float s v)"
  by (auto simp: hasFloatType_def getValue_def has_float_def hasType_def type_def
      cast_TensorType_def split: option.splits Type.splits)

lemma all_hasFloatType_live:
  "\<forall>v \<in> set vs. map_of (value_tab s) v \<noteq> None \<Longrightarrow>
   all_hasFloatType s vs = Inr (\<forall>v \<in> set vs. has_float s v)"
  by (induction vs) (auto simp: hasFloatType_live)

text \<open>
  Claim C10: a simple-map node with an input or output value that has no type or a
  type that is not a tensor type is not fusable, and \<^verbatim>\<open>isFusable\<close> returns false
  rather than failing in \<^verbatim>\<open>isCuda\<close>, which it does not reach.
\<close>

theorem isFusable_untyped_io:
  assumes "getNode s n = Inr nd" and "isSimpleMap nd"
    and "\<forall>v \<in> set (outputs nd @ inputs nd). map_of (value_tab s) v \<noteq> None"
    and "\<exists>v \<in> set (outputs nd @ inputs nd). \<exists>x. map_of (value_tab s) v = Some x \<and>
           (\<forall>tt. typeOption x \<noteq> Some (TensorT tt))"
  shows "isFusable s n = Inr False"
proof -
  have k: "kind nd \<noteq> kFusionGroup"
    using assms(2) kFusionGroup_not_simple by (auto simp: isSimpleMap_def split: if_splits)
  have o: "all_hasFloatType s (outputs nd) = Inr (\<forall>v \<in> set (outputs nd). has_float s v)"
    using assms(3) by (intro all_hasFloatType_live) auto
  have i: "all_hasFloatType s (inputs nd) = Inr (\<forall>v \<in> set (inputs nd). has_float s v)"
    using assms(3) by (intro all_hasFloatType_live) auto
  obtain v x where v: "v \<in> set (outputs nd @ inputs nd)" "map_of (value_tab s) v = Some x"
    "\<forall>tt. typeOption x \<noteq> Some (TensorT tt)" using assms(4) by blast
  have nf: "\<not> has_float s v" using v(2,3)
    by (auto simp: has_float_def split: option.splits Type.splits)
  have "allFloatIO s n = Inr False"
    using assms(1) o i v(1) nf by (auto simp: allFloatIO_def)
  then show ?thesis using assms(1,2) k by (simp add: isFusable_def)
qed

text \<open>
  An \<^verbatim>\<open>add\<close> whose output is untyped: \<^verbatim>\<open>isCuda\<close> on it fails, \<^verbatim>\<open>isFusable\<close>
  returns false.
\<close>

theorem isFusable_untyped_io_witness:
  "isFusable ex_untyped 5 = Inr False \<and>
   isCuda ex_untyped 5 = Inl (AssertionFailure ''type_ != nullptr'')"
proof -
  let ?nd = "mkNode kadd [3, 4] [6] 0"
  have a: "getNode ex_untyped 5 = Inr ?nd" by (simp add: getNode_def ex_untyped_def)
  have b: "isSimpleMap ?nd" by (simp add: isSimpleMap_def mkNode_def simple_mappable_def kind_defs)
  have c: "\<forall>v \<in> set (outputs ?nd @ inputs ?nd). map_of (value_tab ex_untyped) v \<noteq> None"
    by (simp add: mkNode_def ex_untyped_def)
  have d: "\<exists>v \<in> set (outputs ?nd @ inputs ?nd). \<exists>x. map_of (value_tab ex_untyped) v = Some x \<and>
           (\<forall>tt. typeOption x \<noteq> Some (TensorT tt))"
    by (simp add: mkNode_def ex_untyped_def mkValue_def)
  have e: "isCuda ex_untyped 5 = Inl (AssertionFailure ''type_ != nullptr'')"
    by (simp add: isCuda_def getNode_def ex_untyped_def mkNode_def node_output_def getValue_def
        mkValue_def type_def)
  show ?thesis using isFusable_untyped_io[OF a b c d] e by simp
qed

lemma tryToMoveChunk_cases:
  "tryToMoveChunk consumer producer s = Inr (b, s') \<Longrightarrow> (b \<or> s' = s)"
  unfolding tryToMoveChunk_def
  by (auto simp: bindE_eq_Inr split: if_splits prod.splits)

text \<open>
  Claim C9: when \<^verbatim>\<open>tryToMoveChunk\<close> returns false, the state (the graph, the arena
  and the index) is the one it was called with.
\<close>

theorem tryToMoveChunk_false_unchanged:
  "tryToMoveChunk consumer producer s = Inr (False, s') \<Longrightarrow> s' = s"
  using tryToMoveChunk_cases by blast

text \<open>In the multi-use example the chunk is not moved: its producer has another user.\<close>

theorem tryToMoveChunk_false_unchanged_witness:
  "tryToMoveChunk 12 10 ex_multi_use_indexed = Inr (False, ex_multi_use_indexed)"
proof -
  have "returned (tryToMoveChunk 12 10 ex_multi_use_indexed) = Some False"
    by code_simp
  then obtain s' where r: "tryToMoveChunk 12 10 ex_multi_use_indexed = Inr (False, s')"
    by (auto simp: returned_def split: sum.splits prod.splits)
  from tryToMoveChunk_false_unchanged[OF r] r show ?thesis by simp
qed

text \<open>
  Claim C8 fails on the code: on the multi-use example, a graph of simple maps and a
  split without any fusion group, the first sweep builds a group with two outputs, one
  of them the input of the split, and the second sweep fails in \<^verbatim>\<open>tryToMoveChunk\<close> on
  the assertion that the producer of the chunk has one output.
\<close>

theorem chunk_assertion_fires:
  "failure_of (FuseGraph 6 ex_multi_use) =
     Some (AssertionFailure ''producer_for_chunk_node->outputs().size() == 1'')"
  by code_simp

end
